theory Spec2Isabelle
  imports Main
begin

section \<open>Strings of the runtime\<close>

text \<open>
  A JavaScript string is modelled as a \<^typ>\<open>string\<close>: one \<^typ>\<open>char\<close> per code unit,
  restricted to the code units below 256. Of these, \<open>String.prototype.trim\<close> and the
  regular expression class \<open>\s\<close> take exactly seven as white space: TAB, LF, VT, FF, CR,
  SPACE and NBSP.
\<close>

definition is_space :: "char \<Rightarrow> bool" where
  "is_space c = (c \<in> set [CHR 0x09, CHR 0x0A, CHR 0x0B, CHR 0x0C, CHR 0x0D, CHR 0x20, CHR 0xA0])"

text \<open>\<open>s.trim()\<close>\<close>

definition trim :: "string \<Rightarrow> string" where
  "trim s = rev (dropWhile is_space (rev (dropWhile is_space s)))"

text \<open>\<open>s.split("\n")\<close>: the pieces between line feeds; one piece more than there are line feeds.\<close>

fun split_lines_from :: "string \<Rightarrow> string \<Rightarrow> string list" where
  "split_lines_from cur [] = [rev cur]"
| "split_lines_from cur (c # cs) =
     (if c = CHR 0x0A then rev cur # split_lines_from [] cs
      else split_lines_from (c # cur) cs)"

definition split_lines :: "string \<Rightarrow> string list" where
  "split_lines s = split_lines_from [] s"

text \<open>\<open>s.split(/\s+/)\<close>: the pieces between maximal runs of white space.\<close>

function split_ws_from :: "string \<Rightarrow> string \<Rightarrow> string list" where
  "split_ws_from cur [] = [rev cur]"
| "split_ws_from cur (c # cs) =
     (if is_space c then rev cur # split_ws_from [] (dropWhile is_space cs)
      else split_ws_from (c # cur) cs)"
  by pat_completeness auto
termination
  by (relation "measure (\<lambda>(cur, cs). length cs)")
     (auto simp: less_Suc_eq_le length_dropWhile_le)

definition split_ws :: "string \<Rightarrow> string list" where
  "split_ws s = split_ws_from [] s"

text \<open>\<open>xs.join(sep)\<close>\<close>

fun join :: "string \<Rightarrow> string list \<Rightarrow> string" where
  "join sep [] = []"
| "join sep [x] = x"
| "join sep (x # y # ys) = x @ sep @ join sep (y # ys)"

text \<open>The decimal numeral of an integer, as a template literal writes a process exit code.\<close>

definition digit_char :: "nat \<Rightarrow> char" where
  "digit_char d = ''0123456789'' ! d"

function string_of_nat :: "nat \<Rightarrow> string" where
  "string_of_nat n =
     (if n < 10 then [digit_char n] else string_of_nat (n div 10) @ [digit_char (n mod 10)])"
  by pat_completeness auto
termination
  by (relation "measure (\<lambda>n. n)") auto

declare string_of_nat.simps [simp del]

definition string_of_int :: "int \<Rightarrow> string" where
  "string_of_int i = (if i < 0 then CHR ''-'' # string_of_nat (nat (- i)) else string_of_nat (nat i))"

text \<open>A string is truthy when it is present and not empty.\<close>

fun truthy :: "string option \<Rightarrow> bool" where
  "truthy None = False"
| "truthy (Some s) = (s \<noteq> [])"

section \<open>Data model (types.ts)\<close>

datatype PackageStatus = Current | Outdated | Unknown

datatype PackageManager = Brew | Npm | Pip

text \<open>The shapes the collectors read out of \<open>JSON.parse\<close>, as their type aliases declare them;
  a field or value the code guards with \<open>?.\<close>, \<open>??\<close> or a truthiness test may be absent.\<close>

record BrewFormula =
  name :: string
  installed_versions :: "string list option"
  current_version :: "string option"
  latest_version :: "string option"

record BrewOutdated =
  formulae :: "BrewFormula list option"

record NpmPackage =
  version :: "string option"

record NpmTree =
  dependencies :: "(string \<times> NpmPackage option) list option"

record NpmDetails =
  latest :: "string option"

record PipPackage =
  name :: string
  version :: string

record PipOutdated =
  name :: string
  latest_version :: string

text \<open>
  What \<open>JSON.parse(list.stdout) as PipPackage[]\<close> leaves in \<open>installed\<close>; the cast checks
  nothing. It is an array of packages, or a value on which the closing \<open>installed.map(...)\<close>
  throws a \<open>TypeError\<close> (valid JSON that is no array), kept with the message of that error.
\<close>

datatype PipInstalled = PipArray "PipPackage list" | NotAnArray string

text \<open>
  Modelled from the spec: the wire document (\<open>generatedAt\<close> and a \<open>managers\<close> object keyed
  \<open>brew\<close>, \<open>npm\<close>, \<open>pip\<close>, each an array of packages whose \<open>status\<close> is one of the strings
  \<open>current\<close>, \<open>outdated\<close> and \<open>-\<close>). No declaration of it is among the sources.
\<close>

record WirePackage =
  name :: string
  currentVersion :: string
  latestVersion :: "string option"
  installedAt :: "string option"
  status :: string

record WireManagers =
  brew :: "WirePackage list"
  npm :: "WirePackage list"
  pip :: "WirePackage list"

record WireDocument =
  generatedAt :: string
  managers :: WireManagers

text \<open>
  Modelled from the spec: the declarations of \<open>CollectionWarning\<close> and \<open>CollectionSummary\<close>
  (\<open>./types\<close>, imported by the collector module) are not among the sources. The spec gives
  them as \<open>{ manager, message }\<close> and \<open>{ snapshot, warnings }\<close>, which is how
  \<open>collectInventory\<close> builds them.
\<close>

record CollectionWarning =
  manager :: PackageManager
  message :: string

text \<open>The records of \<open>types.ts\<close>. Several records above have fields of the same names; from
  here on a short field name (\<open>name\<close>, \<open>status\<close>, \<open>manager\<close>, ...) is the field of
  \<open>PackageRecord\<close>, and the field of another record is written with that record's name.\<close>

record PackageRecord =
  name :: string
  current_version :: string
  latest_version :: "string option"
  installed_at :: "string option"
  status :: PackageStatus
  manager :: PackageManager

record InventorySnapshot =
  generated_at :: "string option"
  packages :: "PackageRecord list"

record CollectionSummary =
  snapshot :: InventorySnapshot
  warnings :: "CollectionWarning list"

section \<open>The runtime\<close>

text \<open>A thrown \<open>Error\<close> with its message.\<close>

datatype error = Error string

fun error_message :: "error \<Rightarrow> string" where
  "error_message (Error m) = m"

text \<open>A finished child process: its exit code and what its two pipes held (\<open>None\<close>: no stream).\<close>

record Subprocess =
  exited :: int
  proc_stdout :: "string option"
  proc_stderr :: "string option"

record CommandResult =
  code :: int
  stdout :: string
  stderr :: string

text \<open>
  What the collectors take from the runtime: \<open>Bun.spawn\<close> (which throws when the program
  cannot be started), \<open>JSON.parse\<close> read at each of the five declared shapes (\<open>Inl\<close> holds
  \<open>String(error)\<close> of what was thrown inside the \<open>try\<close> block), and the clock. Within one run every argument vector is
  spawned at most once, so a function of the argument vector describes the run.
\<close>

record Runtime =
  spawn :: "string list \<Rightarrow> error + Subprocess"
  parse_BrewOutdated :: "string \<Rightarrow> string + BrewOutdated"
  parse_NpmTree :: "string \<Rightarrow> string + NpmTree"
  parse_NpmOutdated :: "string \<Rightarrow> string + (string \<times> NpmDetails option) list"
  parse_PipPackages :: "string \<Rightarrow> string + PipInstalled"
  parse_PipOutdated :: "string \<Rightarrow> string + PipOutdated list"
  now :: string

section \<open>runCommand\<close>

text \<open>\<open>stream ? await new Response(stream).text() : ""\<close>\<close>

definition stream_text :: "string option \<Rightarrow> string" where
  "stream_text stream = (case stream of Some s \<Rightarrow> s | None \<Rightarrow> [])"

text \<open>
  Every function that reaches the process boundary returns, beside its outcome, the
  argument vectors it spawned, in order.
\<close>

definition runCommand ::
  "Runtime \<Rightarrow> string \<Rightarrow> string list \<Rightarrow> int list option \<Rightarrow> (error + CommandResult) \<times> string list list" where
  "runCommand rt program args allowedExitCodes =
     (let allowed = (case allowedExitCodes of None \<Rightarrow> [0] | Some cs \<Rightarrow> cs) in
      case spawn rt (program # args) of
        Inl e \<Rightarrow> (Inl e, [program # args])
      | Inr subprocess \<Rightarrow>
          (let c = exited subprocess;
               out = stream_text (proc_stdout subprocess);
               err = stream_text (proc_stderr subprocess)
           in if c \<notin> set allowed
              then (Inl (Error (program @ '' '' @ join '' '' args @ '' failed (exit ''
                                @ string_of_int c @ ''): '' @ trim err)),
                    [program # args])
              else (Inr \<lparr>code = c, stdout = out, stderr = err\<rparr>, [program # args])))"

section \<open>The collectors\<close>

text \<open>A \<open>Map\<close> keeps its keys in insertion order; \<open>set\<close> on a key it holds replaces the
  value where the key stands. \<open>get\<close> is \<^const>\<open>map_of\<close>.\<close>

fun Map_set :: "('k \<times> 'v) list \<Rightarrow> 'k \<Rightarrow> 'v \<Rightarrow> ('k \<times> 'v) list" where
  "Map_set [] k v = [(k, v)]"
| "Map_set ((k', v') # m) k v = (if k' = k then (k, v) # m else (k', v') # Map_set m k v)"

text \<open>\<open>a || b\<close> on strings that may be absent.\<close>

definition js_or :: "string option \<Rightarrow> string option \<Rightarrow> string option" where
  "js_or a b = (if truthy a then a else b)"

subsection \<open>collectBrew\<close>

text \<open>The loop over the lines of \<open>brew list --versions\<close>.\<close>

fun brew_installed :: "string list \<Rightarrow> (string \<times> string) list \<Rightarrow> (string \<times> string) list" where
  "brew_installed [] installed = installed"
| "brew_installed (line # lines) installed =
     (if trim line = [] then brew_installed lines installed
      else (let parts = split_ws (trim line) in
            if length parts < 2 then brew_installed lines installed
            else brew_installed lines (Map_set installed (hd parts) (last parts))))"

text \<open>The loop over \<open>parsed.formulae ?? []\<close>.\<close>

fun brew_outdatedMap :: "BrewFormula list \<Rightarrow> (string \<times> string) list \<Rightarrow> (string \<times> string) list" where
  "brew_outdatedMap [] outdatedMap = outdatedMap"
| "brew_outdatedMap (formula # fs) outdatedMap =
     (case js_or (js_or (BrewFormula.latest_version formula) (BrewFormula.current_version formula)) None of
        None \<Rightarrow> brew_outdatedMap fs outdatedMap
      | Some l \<Rightarrow>
          if BrewFormula.name formula \<noteq> [] \<and> l \<noteq> []
          then brew_outdatedMap fs (Map_set outdatedMap (BrewFormula.name formula) l)
          else brew_outdatedMap fs outdatedMap)"

definition brew_record :: "(string \<times> string) list \<Rightarrow> string \<times> string \<Rightarrow> PackageRecord" where
  "brew_record outdatedMap entry =
     (case entry of (n, cv) \<Rightarrow>
        (let lv = map_of outdatedMap n;
             st = (if truthy lv \<and> lv \<noteq> Some cv then Outdated else Current)
         in \<lparr>name = n, current_version = cv, latest_version = lv,
             installed_at = None, status = st, manager = Brew\<rparr>))"

definition collectBrew :: "Runtime \<Rightarrow> (error + PackageRecord list) \<times> string list list" where
  "collectBrew rt =
     (case runCommand rt ''brew'' [''list'', ''--versions''] None of
        (Inl e, t1) \<Rightarrow> (Inl e, t1)
      | (Inr list, t1) \<Rightarrow>
          (let installed = brew_installed (split_lines (stdout list)) [] in
           if installed = [] then (Inr [], t1)
           else
             (case runCommand rt ''brew'' [''outdated'', ''--json=v2''] None of
                (Inl e, t2) \<Rightarrow> (Inl e, t1 @ t2)
              | (Inr outdated, t2) \<Rightarrow>
                  (if trim (stdout outdated) \<noteq> [] then
                     (case parse_BrewOutdated rt (stdout outdated) of
                        Inl err \<Rightarrow>
                          (Inl (Error (''Failed to parse brew outdated JSON: '' @ err)), t1 @ t2)
                      | Inr parsed \<Rightarrow>
                          (let outdatedMap =
                                 brew_outdatedMap (case formulae parsed of None \<Rightarrow> [] | Some fs \<Rightarrow> fs) []
                           in (Inr (map (brew_record outdatedMap) installed), t1 @ t2)))
                   else (Inr (map (brew_record []) installed), t1 @ t2)))))"

subsection \<open>collectNpm\<close>

text \<open>The loop over \<open>Object.entries(parsed)\<close> of \<open>npm outdated\<close>.\<close>

fun npm_outdatedMap ::
  "(string \<times> NpmDetails option) list \<Rightarrow> (string \<times> string) list \<Rightarrow> (string \<times> string) list" where
  "npm_outdatedMap [] outdatedMap = outdatedMap"
| "npm_outdatedMap ((n, details) # es) outdatedMap =
     (case details of
        None \<Rightarrow> npm_outdatedMap es outdatedMap
      | Some d \<Rightarrow>
          (case latest d of
             None \<Rightarrow> npm_outdatedMap es outdatedMap
           | Some l \<Rightarrow>
               if l \<noteq> [] then npm_outdatedMap es (Map_set outdatedMap n l)
               else npm_outdatedMap es outdatedMap))"

text \<open>The loop over \<open>Object.entries(dependencies)\<close>.\<close>

fun npm_packages ::
  "(string \<times> string) list \<Rightarrow> (string \<times> NpmPackage option) list \<Rightarrow> PackageRecord list \<Rightarrow> PackageRecord list" where
  "npm_packages outdatedMap [] pkgs = pkgs"
| "npm_packages outdatedMap ((n, pkg) # es) pkgs =
     (case pkg of
        None \<Rightarrow> npm_packages outdatedMap es pkgs
      | Some p \<Rightarrow>
          (case NpmPackage.version p of
             None \<Rightarrow> npm_packages outdatedMap es pkgs
           | Some v \<Rightarrow>
               if v = [] then npm_packages outdatedMap es pkgs
               else
                 (let lv = map_of outdatedMap n;
                      st = (if truthy lv then Outdated else Current)
                  in npm_packages outdatedMap es
                       (pkgs @ [\<lparr>name = n, current_version = v, latest_version = lv,
                                  installed_at = None, status = st, manager = Npm\<rparr>]))))"

definition collectNpm :: "Runtime \<Rightarrow> (error + PackageRecord list) \<times> string list list" where
  "collectNpm rt =
     (case runCommand rt ''npm'' [''ls'', ''-g'', ''--depth=0'', ''--json''] None of
        (Inl e, t1) \<Rightarrow> (Inl e, t1)
      | (Inr list, t1) \<Rightarrow>
          (case parse_NpmTree rt (stdout list) of
             Inl err \<Rightarrow> (Inl (Error (''Failed to parse npm ls JSON: '' @ err)), t1)
           | Inr parsed \<Rightarrow>
               (let deps = (case dependencies parsed of None \<Rightarrow> [] | Some ds \<Rightarrow> ds) in
                case runCommand rt ''npm'' [''outdated'', ''-g'', ''--json''] (Some [0, 1]) of
                  (Inl e, t2) \<Rightarrow> (Inl e, t1 @ t2)
                | (Inr outdated, t2) \<Rightarrow>
                    (if trim (stdout outdated) \<noteq> [] then
                       (case parse_NpmOutdated rt (stdout outdated) of
                          Inl err \<Rightarrow>
                            (Inl (Error (''Failed to parse npm outdated JSON: '' @ err)), t1 @ t2)
                        | Inr entries \<Rightarrow>
                            (Inr (npm_packages (npm_outdatedMap entries []) deps []), t1 @ t2))
                     else (Inr (npm_packages [] deps []), t1 @ t2)))))"

subsection \<open>collectPip\<close>

text \<open>The loop over the array of \<open>pip list --outdated\<close>.\<close>

fun pip_outdatedMap :: "PipOutdated list \<Rightarrow> (string \<times> string) list \<Rightarrow> (string \<times> string) list" where
  "pip_outdatedMap [] outdatedMap = outdatedMap"
| "pip_outdatedMap (pkg # ps) outdatedMap =
     pip_outdatedMap ps (Map_set outdatedMap (PipOutdated.name pkg) (PipOutdated.latest_version pkg))"

definition pip_record :: "(string \<times> string) list \<Rightarrow> PipPackage \<Rightarrow> PackageRecord" where
  "pip_record outdatedMap pkg =
     (let lv = map_of outdatedMap (PipPackage.name pkg);
          st = (if truthy lv then Outdated else Current)
      in \<lparr>name = PipPackage.name pkg, current_version = PipPackage.version pkg,
          latest_version = lv, installed_at = None, status = st, manager = Pip\<rparr>)"

text \<open>\<open>installed.map(...)\<close>, which stands after both steps and outside every \<open>try\<close>.\<close>

definition pip_packages :: "(string \<times> string) list \<Rightarrow> PipInstalled \<Rightarrow> error + PackageRecord list" where
  "pip_packages outdatedMap installed =
     (case installed of
        PipArray pkgs \<Rightarrow> Inr (map (pip_record outdatedMap) pkgs)
      | NotAnArray msg \<Rightarrow> Inl (Error msg))"

definition collectPip :: "Runtime \<Rightarrow> (error + PackageRecord list) \<times> string list list" where
  "collectPip rt =
     (case runCommand rt ''pip'' [''list'', ''--format=json''] None of
        (Inl e, t1) \<Rightarrow> (Inl e, t1)
      | (Inr list, t1) \<Rightarrow>
          (case parse_PipPackages rt (stdout list) of
             Inl err \<Rightarrow> (Inl (Error (''Failed to parse pip list JSON: '' @ err)), t1)
           | Inr installed \<Rightarrow>
               (case runCommand rt ''pip'' [''list'', ''--outdated'', ''--format=json''] None of
                  (Inl e, t2) \<Rightarrow> (Inl e, t1 @ t2)
                | (Inr outdated, t2) \<Rightarrow>
                    (if trim (stdout outdated) \<noteq> [] then
                       (case parse_PipOutdated rt (stdout outdated) of
                          Inl err \<Rightarrow>
                            (Inl (Error (''Failed to parse pip outdated JSON: '' @ err)), t1 @ t2)
                        | Inr parsed \<Rightarrow>
                            (pip_packages (pip_outdatedMap parsed []) installed, t1 @ t2))
                     else (pip_packages [] installed, t1 @ t2)))))"

section \<open>collectInventory\<close>

definition handlers ::
  "(PackageManager \<times> (Runtime \<Rightarrow> (error + PackageRecord list) \<times> string list list)) list" where
  "handlers = [(Brew, collectBrew), (Npm, collectNpm), (Pip, collectPip)]"

text \<open>The loop over the handlers: a runner's records are pushed onto the snapshot's packages,
  what it throws is caught and pushed onto the warnings.\<close>

fun run_handlers ::
  "Runtime \<Rightarrow> (PackageManager \<times> (Runtime \<Rightarrow> (error + PackageRecord list) \<times> string list list)) list
   \<Rightarrow> CollectionSummary \<times> string list list \<Rightarrow> CollectionSummary \<times> string list list" where
  "run_handlers rt [] acc = acc"
| "run_handlers rt ((m, runner) # hs) (summary, t) =
     (case runner rt of
        (Inr pkgs, t') \<Rightarrow>
          run_handlers rt hs
            (summary\<lparr>snapshot := (snapshot summary)\<lparr>packages := packages (snapshot summary) @ pkgs\<rparr>\<rparr>,
             t @ t')
      | (Inl e, t') \<Rightarrow>
          run_handlers rt hs
            (summary\<lparr>warnings := warnings summary
                        @ [\<lparr>CollectionWarning.manager = m, message = error_message e\<rparr>]\<rparr>,
             t @ t'))"

definition collectInventory :: "Runtime \<Rightarrow> CollectionSummary \<times> string list list" where
  "collectInventory rt =
     run_handlers rt handlers
       (\<lparr>snapshot = \<lparr>generated_at = Some (now rt), packages = []\<rparr>, warnings = []\<rparr>, [])"

section \<open>The wire document\<close>

text \<open>
  Modelled from the spec: the serializer and the parser of the wire document are not among
  the sources. The spec fixes the document's shape and that \<open>unknown\<close> is written as the
  literal \<open>-\<close>; the manager of a package is the key of the array it stands in, and
  \<open>generatedAt\<close> is the snapshot's timestamp.
\<close>

fun serialize_status :: "PackageStatus \<Rightarrow> string" where
  "serialize_status Current = ''current''"
| "serialize_status Outdated = ''outdated''"
| "serialize_status Unknown = ''-''"

definition parse_status :: "string \<Rightarrow> PackageStatus option" where
  "parse_status s =
     (if s = ''current'' then Some Current
      else if s = ''outdated'' then Some Outdated
      else if s = ''-'' then Some Unknown
      else None)"

definition serialize_package :: "PackageRecord \<Rightarrow> WirePackage" where
  "serialize_package r =
     \<lparr>WirePackage.name = PackageRecord.name r, currentVersion = current_version r,
      latestVersion = latest_version r, installedAt = installed_at r,
      status = serialize_status (PackageRecord.status r)\<rparr>"

definition parse_package :: "PackageManager \<Rightarrow> WirePackage \<Rightarrow> PackageRecord option" where
  "parse_package m w =
     (case parse_status (WirePackage.status w) of
        None \<Rightarrow> None
      | Some st \<Rightarrow>
          Some \<lparr>PackageRecord.name = WirePackage.name w, current_version = currentVersion w,
                latest_version = latestVersion w, installed_at = installedAt w,
                status = st, manager = m\<rparr>)"

text \<open>Modelled from the spec: the snapshot's records, grouped under their manager's key. The
  document's \<open>generatedAt\<close> is a string, so a snapshot without a timestamp (which the
  declared type allows and the spec's data model does not) has no document.\<close>

definition serialize_snapshot :: "InventorySnapshot \<Rightarrow> WireDocument option" where
  "serialize_snapshot s =
     (case generated_at s of
        None \<Rightarrow> None
      | Some t \<Rightarrow>
          Some \<lparr>generatedAt = t,
                managers =
                  \<lparr>brew = map serialize_package (filter (\<lambda>r. PackageRecord.manager r = Brew) (packages s)),
                   npm = map serialize_package (filter (\<lambda>r. PackageRecord.manager r = Npm) (packages s)),
                   pip = map serialize_package (filter (\<lambda>r. PackageRecord.manager r = Pip) (packages s))\<rparr>\<rparr>)"

text \<open>Modelled from the spec: the arrays read back in manager enumeration order; a status
  that is none of the three strings fails the parse.\<close>

definition parse_document :: "WireDocument \<Rightarrow> InventorySnapshot option" where
  "parse_document d =
     (case those (map (parse_package Brew) (brew (managers d))
                  @ map (parse_package Npm) (npm (managers d))
                  @ map (parse_package Pip) (pip (managers d))) of
        None \<Rightarrow> None
      | Some ps \<Rightarrow> Some \<lparr>generated_at = Some (generatedAt d), packages = ps\<rparr>)"

text \<open>Modelled from the spec: the order its data model gives to the packages of a snapshot,
  manager enumeration order: the brew records, then the npm records, then the pip records.\<close>

definition in_manager_order :: "PackageRecord list \<Rightarrow> bool" where
  "in_manager_order ps =
     (ps = filter (\<lambda>r. PackageRecord.manager r = Brew) ps
           @ filter (\<lambda>r. PackageRecord.manager r = Npm) ps
           @ filter (\<lambda>r. PackageRecord.manager r = Pip) ps)"

section \<open>The refresh scheduler\<close>

text \<open>
  Modelled from the spec: the scheduler is not among the sources. The spec gives
  \<open>refreshNow()\<close> as: if a run is already \<open>Running\<close>, return the in-flight run's eventual
  result rather than starting a second one; otherwise go to \<open>Running\<close>, invoke the aggregator,
  store the resulting summary as current on completion and go back to \<open>Idle\<close>. Interleavings
  are sequences of two events: a caller (a number) calls \<open>refreshNow()\<close>, or the aggregation in
  flight completes with its summary. The state counts the aggregations invoked and records
  what each caller's \<open>refreshNow()\<close> resolved to.
\<close>

datatype Phase = Idle | Running

record Scheduler =
  phase :: Phase
  current :: "CollectionSummary option"
  waiting :: "nat list"
  aggregations :: nat
  observed :: "(nat \<times> CollectionSummary) list"

datatype Event = RefreshNow nat | Completed CollectionSummary

text \<open>Modelled from the spec: \<open>refreshNow()\<close> joins a run in flight, or starts one.\<close>

definition refreshNow :: "nat \<Rightarrow> Scheduler \<Rightarrow> Scheduler" where
  "refreshNow caller s =
     (if phase s = Running then s\<lparr>waiting := waiting s @ [caller]\<rparr>
      else s\<lparr>phase := Running, waiting := [caller], aggregations := aggregations s + 1\<rparr>)"

text \<open>Modelled from the spec: on completion the summary is stored as current, every caller
  of the run receives it, and the scheduler is idle again.\<close>

definition completed :: "CollectionSummary \<Rightarrow> Scheduler \<Rightarrow> Scheduler" where
  "completed summary s =
     (if phase s = Running
      then s\<lparr>phase := Idle, current := Some summary, waiting := [],
             observed := observed s @ map (\<lambda>caller. (caller, summary)) (waiting s)\<rparr>
      else s)"

fun step :: "Event \<Rightarrow> Scheduler \<Rightarrow> Scheduler" where
  "step (RefreshNow caller) s = refreshNow caller s"
| "step (Completed summary) s = completed summary s"

fun run :: "Event list \<Rightarrow> Scheduler \<Rightarrow> Scheduler" where
  "run [] s = s"
| "run (e # es) s = run es (step e s)"

definition initial :: Scheduler where
  "initial = \<lparr>phase = Idle, current = None, waiting = [], aggregations = 0, observed = []\<rparr>"

section \<open>Example runs\<close>

text \<open>
  A run in which every command succeeds: Homebrew lists two formulae and reports one of them
  outdated, \<open>npm outdated\<close> exits with code 1 and a JSON body, and \<open>pip list --outdated\<close>
  prints nothing but a line feed.
\<close>

definition brew_list_text :: string where
  "brew_list_text = ''wget 1.24.5'' @ [CHR 0x0A] @ ''git 2.44.0'' @ [CHR 0x0A]"

definition brew_outdated_text :: string where
  \<open>brew_outdated_text = ''{"formulae":[{"name":"wget","latest_version":"1.24.6"}]}''\<close>

definition npm_ls_text :: string where
  \<open>npm_ls_text = ''{"dependencies":{"typescript":{"version":"5.5.2"},"npm":{"version":"10.8.1"}}}''\<close>

definition npm_outdated_text :: string where
  \<open>npm_outdated_text = ''{"typescript":{"current":"5.5.2","wanted":"5.6.3","latest":"5.6.3"}}''\<close>

definition pip_list_text :: string where
  \<open>pip_list_text = ''[{"name":"requests","version":"2.32.3"},{"name":"pip","version":"24.0"}]''\<close>

definition finished :: "int \<Rightarrow> string \<Rightarrow> string \<Rightarrow> error + Subprocess" where
  "finished c out err = Inr \<lparr>exited = c, proc_stdout = Some out, proc_stderr = Some err\<rparr>"

definition example_spawn :: "string list \<Rightarrow> error + Subprocess" where
  "example_spawn argv =
     (if argv = [''brew'', ''list'', ''--versions''] then finished 0 brew_list_text []
      else if argv = [''brew'', ''outdated'', ''--json=v2''] then finished 0 brew_outdated_text []
      else if argv = [''npm'', ''ls'', ''-g'', ''--depth=0'', ''--json''] then finished 0 npm_ls_text []
      else if argv = [''npm'', ''outdated'', ''-g'', ''--json''] then finished 1 npm_outdated_text []
      else if argv = [''pip'', ''list'', ''--format=json''] then finished 0 pip_list_text []
      else if argv = [''pip'', ''list'', ''--outdated'', ''--format=json''] then finished 0 [CHR 0x0A] []
      else Inl (Error ''Executable not found in $PATH''))"

definition example_runtime :: Runtime where
  "example_runtime =
     \<lparr>spawn = example_spawn,
      parse_BrewOutdated = (\<lambda>s. if s = brew_outdated_text
         then Inr \<lparr>formulae = Some [\<lparr>BrewFormula.name = ''wget'', installed_versions = None,
                                     current_version = None, latest_version = Some ''1.24.6''\<rparr>]\<rparr>
         else Inl ''SyntaxError: JSON Parse error''),
      parse_NpmTree = (\<lambda>s. if s = npm_ls_text
         then Inr \<lparr>dependencies = Some [(''typescript'', Some \<lparr>NpmPackage.version = Some ''5.5.2''\<rparr>),
                                       (''npm'', Some \<lparr>NpmPackage.version = Some ''10.8.1''\<rparr>)]\<rparr>
         else if s = ''{}'' then Inr \<lparr>dependencies = None\<rparr>
         else Inl ''SyntaxError: JSON Parse error''),
      parse_NpmOutdated = (\<lambda>s. if s = npm_outdated_text
         then Inr [(''typescript'', Some \<lparr>latest = Some ''5.6.3''\<rparr>)]
         else Inl ''SyntaxError: JSON Parse error''),
      parse_PipPackages = (\<lambda>s. if s = pip_list_text
         then Inr (PipArray [\<lparr>PipPackage.name = ''requests'', version = ''2.32.3''\<rparr>,
                             \<lparr>PipPackage.name = ''pip'', version = ''24.0''\<rparr>])
         else Inl ''SyntaxError: JSON Parse error''),
      parse_PipOutdated = (\<lambda>s. Inl ''SyntaxError: JSON Parse error''),
      now = ''2025-10-05T12:34:56.000Z''\<rparr>"

text \<open>What the three collectors return in that run.\<close>

definition example_brew_records :: "PackageRecord list" where
  "example_brew_records =
     [\<lparr>name = ''wget'', current_version = ''1.24.5'', latest_version = Some ''1.24.6'',
       installed_at = None, status = Outdated, manager = Brew\<rparr>,
      \<lparr>name = ''git'', current_version = ''2.44.0'', latest_version = None,
       installed_at = None, status = Current, manager = Brew\<rparr>]"

definition example_npm_records :: "PackageRecord list" where
  "example_npm_records =
     [\<lparr>name = ''typescript'', current_version = ''5.5.2'', latest_version = Some ''5.6.3'',
       installed_at = None, status = Outdated, manager = Npm\<rparr>,
      \<lparr>name = ''npm'', current_version = ''10.8.1'', latest_version = None,
       installed_at = None, status = Current, manager = Npm\<rparr>]"

definition example_pip_records :: "PackageRecord list" where
  "example_pip_records =
     [\<lparr>name = ''requests'', current_version = ''2.32.3'', latest_version = None,
       installed_at = None, status = Current, manager = Pip\<rparr>,
      \<lparr>name = ''pip'', current_version = ''24.0'', latest_version = None,
       installed_at = None, status = Current, manager = Pip\<rparr>]"

text \<open>A machine with no global npm package, on which \<open>npm outdated\<close> cannot read its cache
  and exits with code 243.\<close>

definition example_empty_npm :: Runtime where
  "example_empty_npm =
     example_runtime\<lparr>spawn := (\<lambda>argv.
         if argv = [''npm'', ''ls'', ''-g'', ''--depth=0'', ''--json''] then finished 0 ''{}'' []
         else if argv = [''npm'', ''outdated'', ''-g'', ''--json'']
           then finished 243 [] (''npm error code EACCES'' @ [CHR 0x0A])
         else example_spawn argv)\<rparr>"

text \<open>The same machine without \<open>pip\<close> on the search path.\<close>

definition example_without_pip :: Runtime where
  "example_without_pip =
     example_runtime\<lparr>spawn := (\<lambda>argv. case argv of
         [] \<Rightarrow> example_spawn argv
       | program # args \<Rightarrow> if program = ''pip'' then Inl (Error ''Executable not found in $PATH: pip'')
                           else example_spawn argv)\<rparr>"

text \<open>A run in which \<open>npm outdated\<close> lists a package whose latest version is the installed
  one.\<close>

definition npm_outdated_same_text :: string where
  \<open>npm_outdated_same_text = ''{"npm":{"current":"10.8.1","wanted":"10.8.1","latest":"10.8.1"}}''\<close>

definition example_npm_same_latest :: Runtime where
  "example_npm_same_latest =
     example_runtime\<lparr>spawn := (\<lambda>argv.
         if argv = [''npm'', ''outdated'', ''-g'', ''--json''] then finished 1 npm_outdated_same_text []
         else example_spawn argv),
       parse_NpmOutdated := (\<lambda>s. if s = npm_outdated_same_text
         then Inr [(''npm'', Some \<lparr>latest = Some ''10.8.1''\<rparr>)]
         else Inl ''SyntaxError: JSON Parse error'')\<rparr>"

text \<open>The demo snapshot of the terminal client (the constant \<open>demoSnapshot\<close> of the first
  \<open>main.ts\<close>), at a fixed time, and its wire document.\<close>

definition demoSnapshot :: InventorySnapshot where
  "demoSnapshot =
     \<lparr>generated_at = Some ''2025-10-05T12:34:56.000Z'',
      packages =
        [\<lparr>name = ''wget'', current_version = ''1.24.5'', latest_version = Some ''1.24.6'',
          installed_at = Some ''2024-09-17T08:22:00Z'', status = Outdated, manager = Brew\<rparr>,
         \<lparr>name = ''typescript'', current_version = ''5.5.2'', latest_version = Some ''5.6.3'',
          installed_at = Some ''2025-02-11T15:10:30Z'', status = Current, manager = Npm\<rparr>,
         \<lparr>name = ''requests'', current_version = ''2.32.3'', latest_version = None,
          installed_at = None, status = Unknown, manager = Pip\<rparr>]\<rparr>"

definition demoDocument :: WireDocument where
  "demoDocument =
     \<lparr>generatedAt = ''2025-10-05T12:34:56.000Z'',
      managers =
        \<lparr>brew = [\<lparr>WirePackage.name = ''wget'', currentVersion = ''1.24.5'',
                   latestVersion = Some ''1.24.6'', installedAt = Some ''2024-09-17T08:22:00Z'',
                   status = ''outdated''\<rparr>],
         npm = [\<lparr>WirePackage.name = ''typescript'', currentVersion = ''5.5.2'',
                  latestVersion = Some ''5.6.3'', installedAt = Some ''2025-02-11T15:10:30Z'',
                  status = ''current''\<rparr>],
         pip = [\<lparr>WirePackage.name = ''requests'', currentVersion = ''2.32.3'',
                  latestVersion = None, installedAt = None, status = ''-''\<rparr>]\<rparr>\<rparr>"

text \<open>A machine on which Homebrew has no formula installed: \<open>brew list --versions\<close>
  prints nothing.\<close>

definition example_empty_brew :: Runtime where
  "example_empty_brew =
     example_runtime\<lparr>spawn := (\<lambda>argv.
         if argv = [''brew'', ''list'', ''--versions''] then finished 0 [] []
         else example_spawn argv)\<rparr>"

text \<open>A machine with none of the three managers on the search path.\<close>

definition example_no_managers :: Runtime where
  "example_no_managers =
     example_runtime\<lparr>spawn := (\<lambda>argv. Inl (Error ''Executable not found in $PATH''))\<rparr>"

section \<open>What the collectors emit\<close>

text \<open>No latest-version map built from an outdated listing of Homebrew or npm holds an empty
  string: both loops store a value only when it is truthy.\<close>

lemma Map_set_subset: "set (Map_set m k v) \<subseteq> insert (k, v) (set m)"
  by (induction m) (auto split: if_splits)

lemma Map_set_values: "snd ` set (Map_set m k v) \<subseteq> insert v (snd ` set m)"
  using image_mono [OF Map_set_subset [of m k v], of snd] by simp

lemma map_of_value: "map_of m k = Some v \<Longrightarrow> v \<in> snd ` set m"
  by (force dest: map_of_SomeD)

lemma Map_set_nonempty:
  "[] \<notin> snd ` set m \<Longrightarrow> l \<noteq> [] \<Longrightarrow> [] \<notin> snd ` set (Map_set m k l)"
  using Map_set_values [of m k l] by auto

lemma brew_outdatedMap_values:
  "[] \<notin> snd ` set m \<Longrightarrow> [] \<notin> snd ` set (brew_outdatedMap fs m)"
proof (induction fs arbitrary: m)
  case Nil
  then show ?case by simp
next
  case (Cons formula fs)
  show ?case
  proof (cases "js_or (js_or (BrewFormula.latest_version formula) (BrewFormula.current_version formula)) None")
    case None
    then show ?thesis using Cons.IH [OF Cons.prems] by simp
  next
    case (Some l)
    show ?thesis
    proof (cases "BrewFormula.name formula \<noteq> [] \<and> l \<noteq> []")
      case True
      then have "[] \<notin> snd ` set (Map_set m (BrewFormula.name formula) l)"
        using Map_set_nonempty [OF Cons.prems] by simp
      from Cons.IH [OF this] Some True show ?thesis by simp
    next
      case False
      with Some Cons.IH [OF Cons.prems] show ?thesis by auto
    qed
  qed
qed


lemma npm_outdatedMap_values:
  "[] \<notin> snd ` set m \<Longrightarrow> [] \<notin> snd ` set (npm_outdatedMap es m)"
proof (induction es m rule: npm_outdatedMap.induct)
  case (1 outdatedMap)
  then show ?case by simp
next
  case (2 n details es outdatedMap)
  show ?case
  proof (cases details)
    case None
    with 2 show ?thesis by simp
  next
    case (Some d)
    show ?thesis
    proof (cases "latest d")
      case None
      with Some 2 show ?thesis by simp
    next
      case (Some l)
      show ?thesis
      proof (cases "l = []")
        case True
        with Some \<open>details = Some d\<close> 2 show ?thesis by simp
      next
        case False
        then have "[] \<notin> snd ` set (Map_set outdatedMap n l)"
          using Map_set_nonempty [OF "2.prems"] by simp
        with False Some \<open>details = Some d\<close> "2.IH"(3) show ?thesis by simp
      qed
    qed
  qed
qed

lemma lookup_nonempty: "[] \<notin> snd ` set m \<Longrightarrow> map_of m k \<noteq> Some []"
  using map_of_value [of m k "[]"] by auto

lemma brew_record_fields:
  assumes "[] \<notin> snd ` set m"
  shows "manager (brew_record m e) = Brew"
    and "installed_at (brew_record m e) = None"
    and "latest_version (brew_record m e) \<noteq> Some []"
    and "status (brew_record m e) =
          (if latest_version (brew_record m e) \<noteq> None
              \<and> latest_version (brew_record m e) \<noteq> Some (current_version (brew_record m e))
           then Outdated else Current)"
proof -
  obtain n cv where e: "e = (n, cv)" by (cases e)
  have l: "map_of m n \<noteq> Some []" by (rule lookup_nonempty [OF assms])
  show "manager (brew_record m e) = Brew" "installed_at (brew_record m e) = None"
    by (simp_all add: brew_record_def Let_def e)
  show "latest_version (brew_record m e) \<noteq> Some []"
    using l by (simp add: brew_record_def Let_def e)
  show "status (brew_record m e) =
          (if latest_version (brew_record m e) \<noteq> None
              \<and> latest_version (brew_record m e) \<noteq> Some (current_version (brew_record m e))
           then Outdated else Current)"
    using l by (cases "map_of m n") (simp_all add: brew_record_def Let_def e)
qed


lemma collectBrew_shape:
  assumes "fst (collectBrew rt) = Inr rs"
  shows "\<exists>m inst. (m = [] \<or> (\<exists>fs. m = brew_outdatedMap fs [])) \<and> rs = map (brew_record m) inst"
proof -
  have "[] = map (brew_record []) []" by simp
  with assms show ?thesis
    unfolding collectBrew_def Let_def
    by (auto split: prod.splits sum.splits if_splits)
qed

lemma collectBrew_emits:
  assumes "fst (collectBrew rt) = Inr rs" and "r \<in> set rs"
  shows "\<exists>m e. [] \<notin> snd ` set m \<and> r = brew_record m e"
proof -
  from collectBrew_shape [OF assms(1)]
  obtain m inst where m: "m = [] \<or> (\<exists>fs. m = brew_outdatedMap fs [])"
    and rs: "rs = map (brew_record m) inst"
    by blast
  from m have "[] \<notin> snd ` set m"
    using brew_outdatedMap_values [of "[]"] by auto
  moreover from rs assms(2) obtain e where "r = brew_record m e"
    by auto
  ultimately show ?thesis by blast
qed


lemma collectBrew_record:
  assumes "fst (collectBrew rt) = Inr rs" and "r \<in> set rs"
  shows "manager r = Brew" and "installed_at r = None" and "latest_version r \<noteq> Some []"
    and "status r = (if latest_version r \<noteq> None \<and> latest_version r \<noteq> Some (current_version r)
                     then Outdated else Current)"
proof -
  from collectBrew_emits [OF assms]
  obtain m e where m: "[] \<notin> snd ` set m" and r: "r = brew_record m e"
    by blast
  show "manager r = Brew" "installed_at r = None" "latest_version r \<noteq> Some []"
    "status r = (if latest_version r \<noteq> None \<and> latest_version r \<noteq> Some (current_version r)
                 then Outdated else Current)"
    unfolding r by (rule brew_record_fields [OF m])+
qed

lemma npm_packages_emits:
  "r \<in> set (npm_packages m es acc) \<Longrightarrow>
     r \<in> set acc \<or>
     (\<exists>n v. r = \<lparr>name = n, current_version = v, latest_version = map_of m n, installed_at = None,
                  status = (if truthy (map_of m n) then Outdated else Current), manager = Npm\<rparr>)"
proof (induction es arbitrary: acc)
  case Nil
  then show ?case by simp
next
  case (Cons e es)
  obtain n pkg where e: "e = (n, pkg)" by (cases e)
  show ?case
  proof (cases "\<exists>p v. pkg = Some p \<and> NpmPackage.version p = Some v \<and> v \<noteq> []")
    case True
    then obtain p v where p: "pkg = Some p" "NpmPackage.version p = Some v" "v \<noteq> []"
      by blast
    let ?rec = "\<lparr>name = n, current_version = v, latest_version = map_of m n, installed_at = None,
       status = (if truthy (map_of m n) then Outdated else Current), manager = Npm\<rparr>"
    have "npm_packages m (e # es) acc = npm_packages m es (acc @ [?rec])"
      using p by (simp add: e Let_def)
    with Cons.prems have "r \<in> set (npm_packages m es (acc @ [?rec]))"
      by simp
    from Cons.IH [OF this] show ?thesis
      by auto
  next
    case False
    then have "npm_packages m (e # es) acc = npm_packages m es acc"
      by (auto simp: e split: option.splits)
    with Cons.prems Cons.IH show ?thesis
      by simp
  qed
qed

lemma collectNpm_shape:
  assumes "fst (collectNpm rt) = Inr rs"
  shows "\<exists>m deps. (m = [] \<or> (\<exists>es. m = npm_outdatedMap es [])) \<and> rs = npm_packages m deps []"
  using assms unfolding collectNpm_def Let_def
  by (auto split: prod.splits sum.splits if_splits)

lemma collectNpm_record:
  assumes "fst (collectNpm rt) = Inr rs" and "r \<in> set rs"
  shows "manager r = Npm" and "installed_at r = None" and "latest_version r \<noteq> Some []"
    and "status r = (if latest_version r \<noteq> None then Outdated else Current)"
proof -
  from collectNpm_shape [OF assms(1)]
  obtain m deps where m: "m = [] \<or> (\<exists>es. m = npm_outdatedMap es [])"
    and rs: "rs = npm_packages m deps []"
    by blast
  from m have vals: "[] \<notin> snd ` set m"
    using npm_outdatedMap_values [of "[]"] by auto
  from npm_packages_emits [of r m deps "[]"] assms(2) rs
  obtain n v where r: "r = \<lparr>name = n, current_version = v, latest_version = map_of m n,
      installed_at = None, status = (if truthy (map_of m n) then Outdated else Current), manager = Npm\<rparr>"
    by auto
  have l: "map_of m n \<noteq> Some []" by (rule lookup_nonempty [OF vals])
  show "manager r = Npm" "installed_at r = None" by (simp_all add: r)
  show "latest_version r \<noteq> Some []" using l by (simp add: r)
  show "status r = (if latest_version r \<noteq> None then Outdated else Current)"
    using l by (cases "map_of m n") (simp_all add: r)
qed

lemma collectPip_shape:
  assumes "fst (collectPip rt) = Inr rs"
  shows "\<exists>m inst. rs = map (pip_record m) inst"
  using assms unfolding collectPip_def pip_packages_def
  by (auto split: prod.splits sum.splits if_splits PipInstalled.splits)

lemma collectPip_record:
  assumes "fst (collectPip rt) = Inr rs" and "r \<in> set rs"
  shows "manager r = Pip" and "installed_at r = None"
    and "status r = (if truthy (latest_version r) then Outdated else Current)"
proof -
  from collectPip_shape [OF assms(1)] assms(2)
  obtain m pkg where r: "r = pip_record m pkg"
    by auto
  show "manager r = Pip" "installed_at r = None"
    "status r = (if truthy (latest_version r) then Outdated else Current)"
    by (simp_all add: r pip_record_def Let_def)
qed

section \<open>runCommand: the exit-code contract\<close>

lemmas example_defs = example_runtime_def example_spawn_def finished_def brew_list_text_def
  brew_outdated_text_def npm_ls_text_def npm_outdated_text_def pip_list_text_def

lemma runCommand_trace: "snd (runCommand rt program args allowedExitCodes) = [program # args]"
  by (simp add: runCommand_def Let_def split: sum.splits)

text \<open>
  Claim C4. For a child process that was started and ended with some exit code, with the
  allowed codes defaulting to \<open>[0]\<close>: when the exit code is allowed, \<open>runCommand\<close> returns
  that exit code with the whole text of both pipes; when it is not, \<open>runCommand\<close> throws an
  error whose message holds the program, the arguments (joined by spaces), the exit code and
  the trimmed text of stderr; and it throws exactly when the exit code is not allowed.
\<close>

theorem runCommand_contract:
  assumes "spawn rt (program # args) = Inr p"
    and "allowed = (case allowedExitCodes of None \<Rightarrow> [0] | Some cs \<Rightarrow> cs)"
  shows "(exited p \<in> set allowed \<longrightarrow>
            fst (runCommand rt program args allowedExitCodes)
              = Inr \<lparr>code = exited p, stdout = stream_text (proc_stdout p),
                      stderr = stream_text (proc_stderr p)\<rparr>)
       \<and> (exited p \<notin> set allowed \<longrightarrow>
            fst (runCommand rt program args allowedExitCodes)
              = Inl (Error (program @ '' '' @ join '' '' args @ '' failed (exit ''
                            @ string_of_int (exited p) @ ''): '' @ trim (stream_text (proc_stderr p)))))
       \<and> (isl (fst (runCommand rt program args allowedExitCodes)) \<longleftrightarrow> exited p \<notin> set allowed)"
  using assms by (simp add: runCommand_def Let_def)

theorem runCommand_contract_witness:
  "fst (runCommand example_empty_npm ''npm'' [''outdated'', ''-g'', ''--json''] (Some [0, 1]))
     = Inl (Error ''npm outdated -g --json failed (exit 243): npm error code EACCES'')
   \<and> fst (runCommand example_runtime ''npm'' [''outdated'', ''-g'', ''--json''] (Some [0, 1]))
     = Inr \<lparr>code = 1, stdout = npm_outdated_text, stderr = []\<rparr>
   \<and> fst (runCommand example_runtime ''npm'' [''outdated'', ''-g'', ''--json''] None)
     = Inl (Error ''npm outdated -g --json failed (exit 1): '')"
proof -
  let ?p = "\<lparr>exited = 243, proc_stdout = Some [],
             proc_stderr = Some (''npm error code EACCES'' @ [CHR 0x0A])\<rparr>"
  let ?q = "\<lparr>exited = 1, proc_stdout = Some npm_outdated_text, proc_stderr = Some []\<rparr>"
  have p: "spawn example_empty_npm (''npm'' # [''outdated'', ''-g'', ''--json'']) = Inr ?p"
    by (simp add: example_empty_npm_def finished_def)
  have q: "spawn example_runtime (''npm'' # [''outdated'', ''-g'', ''--json'']) = Inr ?q"
    by (simp add: example_defs)
  show ?thesis
    using runCommand_contract [OF p, of "[0, 1]" "Some [0, 1]"]
      runCommand_contract [OF q, of "[0, 1]" "Some [0, 1]"]
      runCommand_contract [OF q, of "[0]" None]
    by (simp add: stream_text_def trim_def is_space_def string_of_int_def
        string_of_nat.simps digit_char_def)
qed

section \<open>collectInventory: what the summary holds\<close>

text \<open>The summary is put together from the three outcomes, in the order of the handlers:
  the records of every collector that returned, one warning for every collector that threw.\<close>

lemma collectInventory_summary:
  "fst (collectInventory rt) =
     \<lparr>snapshot =
        \<lparr>generated_at = Some (now rt),
         packages = (case fst (collectBrew rt) of Inr ps \<Rightarrow> ps | Inl e \<Rightarrow> [])
                    @ (case fst (collectNpm rt) of Inr ps \<Rightarrow> ps | Inl e \<Rightarrow> [])
                    @ (case fst (collectPip rt) of Inr ps \<Rightarrow> ps | Inl e \<Rightarrow> [])\<rparr>,
      warnings =
        (case fst (collectBrew rt) of Inr ps \<Rightarrow> []
         | Inl e \<Rightarrow> [\<lparr>CollectionWarning.manager = Brew, message = error_message e\<rparr>])
        @ (case fst (collectNpm rt) of Inr ps \<Rightarrow> []
           | Inl e \<Rightarrow> [\<lparr>CollectionWarning.manager = Npm, message = error_message e\<rparr>])
        @ (case fst (collectPip rt) of Inr ps \<Rightarrow> []
           | Inl e \<Rightarrow> [\<lparr>CollectionWarning.manager = Pip, message = error_message e\<rparr>])\<rparr>"
proof -
  obtain b tb where b: "collectBrew rt = (b, tb)" by (cases "collectBrew rt")
  obtain n tn where n: "collectNpm rt = (n, tn)" by (cases "collectNpm rt")
  obtain p tp where p: "collectPip rt = (p, tp)" by (cases "collectPip rt")
  show ?thesis
    by (cases b; cases n; cases p) (simp_all add: collectInventory_def handlers_def b n p)
qed

lemma collectInventory_trace:
  "snd (collectInventory rt) = snd (collectBrew rt) @ snd (collectNpm rt) @ snd (collectPip rt)"
proof -
  obtain b tb where b: "collectBrew rt = (b, tb)" by (cases "collectBrew rt")
  obtain n tn where n: "collectNpm rt = (n, tn)" by (cases "collectNpm rt")
  obtain p tp where p: "collectPip rt = (p, tp)" by (cases "collectPip rt")
  show ?thesis
    by (cases b; cases n; cases p) (simp_all add: collectInventory_def handlers_def b n p)
qed

lemma collectInventory_member:
  assumes "r \<in> set (packages (snapshot (fst (collectInventory rt))))"
  shows "(\<exists>rs. fst (collectBrew rt) = Inr rs \<and> r \<in> set rs)
       \<or> (\<exists>rs. fst (collectNpm rt) = Inr rs \<and> r \<in> set rs)
       \<or> (\<exists>rs. fst (collectPip rt) = Inr rs \<and> r \<in> set rs)"
  using assms unfolding collectInventory_summary
  by (cases "fst (collectBrew rt)"; cases "fst (collectNpm rt)"; cases "fst (collectPip rt)") auto

text \<open>The example run, evaluated.\<close>

lemma collectBrew_example:
  "collectBrew example_runtime
     = (Inr example_brew_records, [[''brew'', ''list'', ''--versions''], [''brew'', ''outdated'', ''--json=v2'']])"
  by (simp add: collectBrew_def runCommand_def example_defs stream_text_def split_lines_def trim_def
      is_space_def split_ws_def brew_record_def js_or_def example_brew_records_def)

lemma collectNpm_example:
  "collectNpm example_runtime
     = (Inr example_npm_records,
        [[''npm'', ''ls'', ''-g'', ''--depth=0'', ''--json''], [''npm'', ''outdated'', ''-g'', ''--json'']])"
  by (simp add: collectNpm_def runCommand_def example_defs stream_text_def trim_def
      is_space_def example_npm_records_def)

lemma collectPip_example:
  "collectPip example_runtime
     = (Inr example_pip_records,
        [[''pip'', ''list'', ''--format=json''], [''pip'', ''list'', ''--outdated'', ''--format=json'']])"
  by (simp add: collectPip_def runCommand_def example_defs stream_text_def trim_def
      is_space_def pip_packages_def pip_record_def example_pip_records_def)

section \<open>No record carries an install timestamp\<close>

text \<open>
  Claim C10. Every record that \<open>collectBrew\<close>, \<open>collectNpm\<close> or \<open>collectPip\<close> returns, and so
  every record of the snapshot \<open>collectInventory\<close> returns, has \<open>installed_at = null\<close>.
\<close>

theorem installed_at_always_null:
  "(\<forall>rs. fst (collectBrew rt) = Inr rs \<longrightarrow> (\<forall>r \<in> set rs. installed_at r = None))
   \<and> (\<forall>rs. fst (collectNpm rt) = Inr rs \<longrightarrow> (\<forall>r \<in> set rs. installed_at r = None))
   \<and> (\<forall>rs. fst (collectPip rt) = Inr rs \<longrightarrow> (\<forall>r \<in> set rs. installed_at r = None))
   \<and> (\<forall>r \<in> set (packages (snapshot (fst (collectInventory rt)))). installed_at r = None)"
proof -
  have b: "installed_at r = None" if "fst (collectBrew rt) = Inr rs" "r \<in> set rs" for rs r
    using that by (rule collectBrew_record)
  have n: "installed_at r = None" if "fst (collectNpm rt) = Inr rs" "r \<in> set rs" for rs r
    using that by (rule collectNpm_record)
  have p: "installed_at r = None" if "fst (collectPip rt) = Inr rs" "r \<in> set rs" for rs r
    using that by (rule collectPip_record)
  have "installed_at r = None" if "r \<in> set (packages (snapshot (fst (collectInventory rt))))" for r
    using collectInventory_member [OF that] b n p by blast
  with b n p show ?thesis by blast
qed

theorem installed_at_always_null_witness:
  "fst (collectBrew example_runtime) = Inr example_brew_records
   \<and> fst (collectNpm example_runtime) = Inr example_npm_records
   \<and> fst (collectPip example_runtime) = Inr example_pip_records
   \<and> map installed_at (example_brew_records @ example_npm_records @ example_pip_records)
       = [None, None, None, None, None, None]
   \<and> map installed_at (packages (snapshot (fst (collectInventory example_runtime))))
       = [None, None, None, None, None, None]"
  using installed_at_always_null [of example_runtime]
  by (simp add: collectInventory_summary collectBrew_example collectNpm_example collectPip_example
      example_brew_records_def example_npm_records_def example_pip_records_def)

lemma collector_tags:
  "\<forall>r \<in> set (case fst (collectBrew rt) of Inr ps \<Rightarrow> ps | Inl e \<Rightarrow> []). manager r = Brew"
  "\<forall>r \<in> set (case fst (collectNpm rt) of Inr ps \<Rightarrow> ps | Inl e \<Rightarrow> []). manager r = Npm"
  "\<forall>r \<in> set (case fst (collectPip rt) of Inr ps \<Rightarrow> ps | Inl e \<Rightarrow> []). manager r = Pip"
proof -
  show "\<forall>r \<in> set (case fst (collectBrew rt) of Inr ps \<Rightarrow> ps | Inl e \<Rightarrow> []). manager r = Brew"
    using collectBrew_record(1) [of rt] by (cases "fst (collectBrew rt)") auto
  show "\<forall>r \<in> set (case fst (collectNpm rt) of Inr ps \<Rightarrow> ps | Inl e \<Rightarrow> []). manager r = Npm"
    using collectNpm_record(1) [of rt] by (cases "fst (collectNpm rt)") auto
  show "\<forall>r \<in> set (case fst (collectPip rt) of Inr ps \<Rightarrow> ps | Inl e \<Rightarrow> []). manager r = Pip"
    using collectPip_record(1) [of rt] by (cases "fst (collectPip rt)") auto
qed

lemma filter_blocks:
  assumes "\<forall>r \<in> set B. manager r = Brew" "\<forall>r \<in> set N. manager r = Npm"
    "\<forall>r \<in> set P. manager r = Pip"
  shows "filter (\<lambda>r. manager r = Brew) (B @ N @ P) = B"
    and "filter (\<lambda>r. manager r = Npm) (B @ N @ P) = N"
    and "filter (\<lambda>r. manager r = Pip) (B @ N @ P) = P"
  using assms by (auto simp: filter_id_conv filter_empty_conv)

section \<open>collectInventory: the order of the packages\<close>

text \<open>
  Claim C7. Within one run the snapshot's packages are the whole result of \<open>collectBrew\<close>,
  then the whole result of \<open>collectNpm\<close>, then the whole result of \<open>collectPip\<close> (nothing for
  a collector that threw), each block in the order its collector returned it; every record
  of a block carries that block's manager, so no two blocks interleave.
\<close>

theorem packages_in_manager_blocks:
  "packages (snapshot (fst (collectInventory rt)))
     = (case fst (collectBrew rt) of Inr ps \<Rightarrow> ps | Inl e \<Rightarrow> [])
       @ (case fst (collectNpm rt) of Inr ps \<Rightarrow> ps | Inl e \<Rightarrow> [])
       @ (case fst (collectPip rt) of Inr ps \<Rightarrow> ps | Inl e \<Rightarrow> [])
   \<and> (\<forall>ps. fst (collectBrew rt) = Inr ps \<longrightarrow> (\<forall>r \<in> set ps. manager r = Brew))
   \<and> (\<forall>ps. fst (collectNpm rt) = Inr ps \<longrightarrow> (\<forall>r \<in> set ps. manager r = Npm))
   \<and> (\<forall>ps. fst (collectPip rt) = Inr ps \<longrightarrow> (\<forall>r \<in> set ps. manager r = Pip))"
  using collectBrew_record(1) [of rt] collectNpm_record(1) [of rt] collectPip_record(1) [of rt]
  by (simp add: collectInventory_summary)

theorem packages_in_manager_blocks_witness:
  "packages (snapshot (fst (collectInventory example_runtime)))
     = example_brew_records @ example_npm_records @ example_pip_records
   \<and> map manager example_brew_records = [Brew, Brew]
   \<and> map manager example_npm_records = [Npm, Npm]
   \<and> map manager example_pip_records = [Pip, Pip]"
  using packages_in_manager_blocks [of example_runtime]
  by (simp add: collectBrew_example collectNpm_example collectPip_example
      example_brew_records_def example_npm_records_def example_pip_records_def)

section \<open>collectInventory: one failing manager does not touch the others\<close>

text \<open>
  Claim C2. \<open>collectInventory\<close> has no failing outcome: it returns a summary whatever the
  collectors do. For each of the three handlers: if its collector throws, the snapshot holds
  no record of that manager and the warnings hold exactly one entry naming it (with the
  error's message); if it returns, the records of that manager in the snapshot are exactly
  what it returned and no warning names it. So there are as many warnings as failed
  collectors, and when all three fail the snapshot is empty and the warnings name brew, npm
  and pip.
\<close>

theorem collectInventory_isolation:
  "(let S = fst (collectInventory rt) in
    (\<forall>(m, runner) \<in> set handlers.
       (case fst (runner rt) of
          Inl e \<Rightarrow>
            filter (\<lambda>r. manager r = m) (packages (snapshot S)) = []
            \<and> filter (\<lambda>w. CollectionWarning.manager w = m) (warnings S)
                = [\<lparr>CollectionWarning.manager = m, message = error_message e\<rparr>]
        | Inr ps \<Rightarrow>
            filter (\<lambda>r. manager r = m) (packages (snapshot S)) = ps
            \<and> filter (\<lambda>w. CollectionWarning.manager w = m) (warnings S) = []))
    \<and> length (warnings S) = length (filter (\<lambda>(m, runner). isl (fst (runner rt))) handlers)
    \<and> ((\<forall>(m, runner) \<in> set handlers. isl (fst (runner rt)))
         \<longrightarrow> packages (snapshot S) = []
             \<and> map CollectionWarning.manager (warnings S) = [Brew, Npm, Pip]))"
proof -
  note blocks = filter_blocks [OF collector_tags [of rt]]
  show ?thesis
    unfolding Let_def handlers_def collectInventory_summary
    using blocks
    by (cases "fst (collectBrew rt)"; cases "fst (collectNpm rt)"; cases "fst (collectPip rt)")
       simp_all
qed

lemma collectors_without_pip:
  "fst (collectBrew example_without_pip) = Inr example_brew_records"
  "fst (collectNpm example_without_pip) = Inr example_npm_records"
  "fst (collectPip example_without_pip) = Inl (Error ''Executable not found in $PATH: pip'')"
  by code_simp+

lemma collectors_no_managers:
  "fst (collectBrew example_no_managers) = Inl (Error ''Executable not found in $PATH'')"
  "fst (collectNpm example_no_managers) = Inl (Error ''Executable not found in $PATH'')"
  "fst (collectPip example_no_managers) = Inl (Error ''Executable not found in $PATH'')"
  by (simp_all add: collectBrew_def collectNpm_def collectPip_def runCommand_def
      example_no_managers_def)

theorem collectInventory_isolation_witness:
  "fst (collectPip example_without_pip) = Inl (Error ''Executable not found in $PATH: pip'')
   \<and> packages (snapshot (fst (collectInventory example_without_pip)))
       = example_brew_records @ example_npm_records
   \<and> warnings (fst (collectInventory example_without_pip))
       = [\<lparr>CollectionWarning.manager = Pip, message = ''Executable not found in $PATH: pip''\<rparr>]
   \<and> packages (snapshot (fst (collectInventory example_no_managers))) = []
   \<and> map CollectionWarning.manager (warnings (fst (collectInventory example_no_managers)))
       = [Brew, Npm, Pip]"
  using collectInventory_isolation [of example_without_pip]
    collectInventory_isolation [of example_no_managers]
  by (simp add: collectInventory_summary collectors_without_pip collectors_no_managers
      example_brew_records_def example_npm_records_def)

section \<open>How the status is derived\<close>

text \<open>
  Claim C1, as amended. For every record a collector returns: the status is never
  \<open>unknown\<close>, a status that is not \<open>outdated\<close> is \<open>current\<close>, and a record whose
  \<open>latest_version\<close> is null (the outdated listing had no entry for the package) is
  \<open>current\<close>. For \<open>collectBrew\<close> the status is \<open>outdated\<close> if and only if \<open>latest_version\<close>
  is present and differs from \<open>current_version\<close>. For \<open>collectNpm\<close> and \<open>collectPip\<close> the
  status is \<open>outdated\<close> only if \<open>latest_version\<close> is present, and it is \<open>outdated\<close> whenever
  \<open>latest_version\<close> is present, not empty and differs from \<open>current_version\<close>. (A failed
  outdated step makes the whole collector throw, so no record is returned then.)
\<close>

theorem status_derivation:
  assumes "r \<in> set rs"
  shows "(fst (collectBrew rt) = Inr rs \<longrightarrow>
            (status r = Outdated \<longleftrightarrow>
               latest_version r \<noteq> None \<and> latest_version r \<noteq> Some (current_version r)))
       \<and> (fst (collectNpm rt) = Inr rs \<or> fst (collectPip rt) = Inr rs \<longrightarrow>
            (status r = Outdated \<longrightarrow> latest_version r \<noteq> None)
            \<and> (latest_version r \<noteq> None \<and> latest_version r \<noteq> Some []
                 \<and> latest_version r \<noteq> Some (current_version r) \<longrightarrow> status r = Outdated))
       \<and> (fst (collectBrew rt) = Inr rs \<or> fst (collectNpm rt) = Inr rs \<or> fst (collectPip rt) = Inr rs \<longrightarrow>
            status r \<noteq> Unknown
            \<and> (status r \<noteq> Outdated \<longrightarrow> status r = Current)
            \<and> (latest_version r = None \<longrightarrow> status r = Current))"
proof -
  have b: "status r = (if latest_version r \<noteq> None \<and> latest_version r \<noteq> Some (current_version r)
                       then Outdated else Current)"
    if "fst (collectBrew rt) = Inr rs"
    using that assms by (rule collectBrew_record(4))
  have n: "status r = (if latest_version r \<noteq> None then Outdated else Current)"
    if "fst (collectNpm rt) = Inr rs"
    using that assms by (rule collectNpm_record(4))
  have p: "status r = (if truthy (latest_version r) then Outdated else Current)"
    if "fst (collectPip rt) = Inr rs"
    using that assms by (rule collectPip_record(3))
  have t: "truthy l \<longleftrightarrow> l \<noteq> None \<and> l \<noteq> Some []" for l
    by (cases l) simp_all
  show ?thesis
    using b n p by (auto simp: t split: if_splits)
qed

theorem status_derivation_witness:
  "fst (collectBrew example_runtime) = Inr example_brew_records
   \<and> fst (collectNpm example_runtime) = Inr example_npm_records
   \<and> example_brew_records ! 0 \<in> set example_brew_records
   \<and> example_npm_records ! 1 \<in> set example_npm_records
   \<and> status (example_brew_records ! 0) = Outdated
   \<and> latest_version (example_brew_records ! 0) = Some ''1.24.6''
   \<and> current_version (example_brew_records ! 0) = ''1.24.5''
   \<and> latest_version (example_npm_records ! 1) = None
   \<and> status (example_npm_records ! 1) = Current"
  using status_derivation [of "example_brew_records ! 0" example_brew_records example_runtime]
    status_derivation [of "example_npm_records ! 1" example_npm_records example_runtime]
  by (simp add: collectBrew_example collectNpm_example example_brew_records_def
      example_npm_records_def)

text \<open>
  The claim as stated fails. In the example run the outdated listing of Homebrew has no
  entry for \<open>git\<close>, and the record returned for \<open>git\<close> has status \<open>current\<close>, not
  \<open>unknown\<close>. And when \<open>npm outdated\<close> lists a package with a latest version equal to the
  installed one, \<open>collectNpm\<close> returns it as \<open>outdated\<close>.
\<close>

theorem status_unknown_counterexample:
  "fst (collectBrew example_runtime)
     = Inr [\<lparr>name = ''wget'', current_version = ''1.24.5'', latest_version = Some ''1.24.6'',
              installed_at = None, status = Outdated, manager = Brew\<rparr>,
            \<lparr>name = ''git'', current_version = ''2.44.0'', latest_version = None,
              installed_at = None, status = Current, manager = Brew\<rparr>]
   \<and> parse_BrewOutdated example_runtime brew_outdated_text
     = Inr \<lparr>formulae = Some [\<lparr>BrewFormula.name = ''wget'', installed_versions = None,
                                 current_version = None, latest_version = Some ''1.24.6''\<rparr>]\<rparr>
   \<and> \<not> (status \<lparr>name = ''git'', current_version = ''2.44.0'', latest_version = None,
                  installed_at = None, status = Current, manager = Brew\<rparr> = Unknown
          \<longleftrightarrow> latest_version \<lparr>name = ''git'', current_version = ''2.44.0'', latest_version = None,
                  installed_at = None, status = Current, manager = Brew\<rparr> = None)
   \<and> fst (collectNpm example_npm_same_latest)
     = Inr [\<lparr>name = ''typescript'', current_version = ''5.5.2'', latest_version = None,
              installed_at = None, status = Current, manager = Npm\<rparr>,
            \<lparr>name = ''npm'', current_version = ''10.8.1'', latest_version = Some ''10.8.1'',
              installed_at = None, status = Outdated, manager = Npm\<rparr>]
   \<and> \<not> (status \<lparr>name = ''npm'', current_version = ''10.8.1'', latest_version = Some ''10.8.1'',
                  installed_at = None, status = Outdated, manager = Npm\<rparr> = Outdated
          \<longleftrightarrow> latest_version \<lparr>name = ''npm'', current_version = ''10.8.1'',
                  latest_version = Some ''10.8.1'', installed_at = None, status = Outdated,
                  manager = Npm\<rparr> \<noteq> None
              \<and> latest_version \<lparr>name = ''npm'', current_version = ''10.8.1'',
                  latest_version = Some ''10.8.1'', installed_at = None, status = Outdated,
                  manager = Npm\<rparr> \<noteq> Some ''10.8.1'')"
  by code_simp

section \<open>An empty inventory\<close>

text \<open>
  Claim C3 (every manager skips the outdated step on an empty inventory and returns no
  records and no warning) does not hold of \<open>collectNpm\<close>, which has no such early return:
  with no global package installed it still spawns \<open>npm outdated -g --json\<close>, and when that
  command fails the collector throws and \<open>collectInventory\<close> records a warning for npm.
\<close>

theorem collectNpm_empty_inventory_runs_outdated:
  "parse_NpmTree example_empty_npm ''{}'' = Inr \<lparr>dependencies = None\<rparr>
   \<and> collectNpm example_empty_npm
     = (Inl (Error ''npm outdated -g --json failed (exit 243): npm error code EACCES''),
        [[''npm'', ''ls'', ''-g'', ''--depth=0'', ''--json''], [''npm'', ''outdated'', ''-g'', ''--json'']])
   \<and> warnings (fst (collectInventory example_empty_npm))
     = [\<lparr>CollectionWarning.manager = Npm,
         message = ''npm outdated -g --json failed (exit 243): npm error code EACCES''\<rparr>]"
  by code_simp

section \<open>Exit codes and empty output of the outdated steps\<close>

lemma runCommand_ok:
  assumes "spawn rt (program # args) = Inr p"
    and "exited p \<in> set (case allowedExitCodes of None \<Rightarrow> [0] | Some cs \<Rightarrow> cs)"
  shows "runCommand rt program args allowedExitCodes
           = (Inr \<lparr>code = exited p, stdout = stream_text (proc_stdout p),
                    stderr = stream_text (proc_stderr p)\<rparr>, [program # args])"
  using assms by (simp add: runCommand_def Let_def)

text \<open>
  Claim C5. The outdated step of \<open>collectNpm\<close> passes the allowed exit codes \<open>[0, 1]\<close>: when
  the listing has succeeded and \<open>npm outdated -g --json\<close> exits with code 1 and a body that
  \<open>JSON.parse\<close> accepts, \<open>runCommand\<close> returns (no command failure is thrown) and the
  collector returns the records built with the latest-version map of that body.
\<close>

theorem npm_outdated_exit_code_1_is_success:
  assumes "spawn rt [''npm'', ''ls'', ''-g'', ''--depth=0'', ''--json''] = Inr l"
    and "exited l = 0"
    and "parse_NpmTree rt (stream_text (proc_stdout l)) = Inr tree"
    and "spawn rt [''npm'', ''outdated'', ''-g'', ''--json''] = Inr p"
    and "exited p = 1"
    and "trim (stream_text (proc_stdout p)) \<noteq> []"
    and "parse_NpmOutdated rt (stream_text (proc_stdout p)) = Inr entries"
  shows "fst (runCommand rt ''npm'' [''outdated'', ''-g'', ''--json''] (Some [0, 1]))
           = Inr \<lparr>code = 1, stdout = stream_text (proc_stdout p), stderr = stream_text (proc_stderr p)\<rparr>
       \<and> fst (collectNpm rt)
           = Inr (npm_packages (npm_outdatedMap entries [])
                    (case dependencies tree of None \<Rightarrow> [] | Some ds \<Rightarrow> ds) [])"
proof -
  have ls: "runCommand rt ''npm'' [''ls'', ''-g'', ''--depth=0'', ''--json''] None
              = (Inr \<lparr>code = 0, stdout = stream_text (proc_stdout l), stderr = stream_text (proc_stderr l)\<rparr>,
                 [[''npm'', ''ls'', ''-g'', ''--depth=0'', ''--json'']])"
    using runCommand_ok [OF assms(1), of None] assms(2) by simp
  have out: "runCommand rt ''npm'' [''outdated'', ''-g'', ''--json''] (Some [0, 1])
              = (Inr \<lparr>code = 1, stdout = stream_text (proc_stdout p), stderr = stream_text (proc_stderr p)\<rparr>,
                 [[''npm'', ''outdated'', ''-g'', ''--json'']])"
    using runCommand_ok [OF assms(4), of "Some [0, 1]"] assms(5) by simp
  show ?thesis
    using assms(3,6,7) by (simp add: collectNpm_def ls out)
qed

theorem npm_outdated_exit_code_1_is_success_witness:
  "spawn example_runtime [''npm'', ''outdated'', ''-g'', ''--json'']
     = Inr \<lparr>exited = 1, proc_stdout = Some npm_outdated_text, proc_stderr = Some []\<rparr>
   \<and> parse_NpmOutdated example_runtime npm_outdated_text
     = Inr [(''typescript'', Some \<lparr>latest = Some ''5.6.3''\<rparr>)]
   \<and> fst (collectNpm example_runtime) = Inr example_npm_records"
proof -
  let ?l = "\<lparr>exited = 0, proc_stdout = Some npm_ls_text, proc_stderr = Some []\<rparr>"
  let ?p = "\<lparr>exited = 1, proc_stdout = Some npm_outdated_text, proc_stderr = Some []\<rparr>"
  let ?tree = "\<lparr>dependencies = Some [(''typescript'', Some \<lparr>NpmPackage.version = Some ''5.5.2''\<rparr>),
                                       (''npm'', Some \<lparr>NpmPackage.version = Some ''10.8.1''\<rparr>)]\<rparr>"
  let ?entries = "[(''typescript'', Some \<lparr>latest = Some ''5.6.3''\<rparr>)]"
  have 1: "spawn example_runtime [''npm'', ''ls'', ''-g'', ''--depth=0'', ''--json''] = Inr ?l"
    by (simp add: example_defs)
  have 2: "exited ?l = 0" by simp
  have 3: "parse_NpmTree example_runtime (stream_text (proc_stdout ?l)) = Inr ?tree"
    by (simp add: example_runtime_def stream_text_def)
  have 4: "spawn example_runtime [''npm'', ''outdated'', ''-g'', ''--json''] = Inr ?p"
    by (simp add: example_defs)
  have 5: "exited ?p = 1" by simp
  have 6: "trim (stream_text (proc_stdout ?p)) \<noteq> []"
    by (simp add: stream_text_def trim_def is_space_def npm_outdated_text_def)
  have 7: "parse_NpmOutdated example_runtime (stream_text (proc_stdout ?p)) = Inr ?entries"
    by (simp add: example_runtime_def stream_text_def)
  show ?thesis
    using npm_outdated_exit_code_1_is_success [OF 1 2 3 4 5 6 7] 4 7
    by (simp add: stream_text_def example_npm_records_def)
qed

text \<open>
  Claim C6. When \<open>pip list --outdated --format=json\<close> succeeds and its stdout is empty or
  white space only, every record \<open>collectPip\<close> returns has \<open>latest_version = null\<close> and
  status \<open>current\<close>.
\<close>

theorem pip_empty_outdated_all_current:
  assumes "spawn rt [''pip'', ''list'', ''--outdated'', ''--format=json''] = Inr p"
    and "exited p = 0"
    and "trim (stream_text (proc_stdout p)) = []"
    and "fst (collectPip rt) = Inr rs"
    and "r \<in> set rs"
  shows "latest_version r = None \<and> status r = Current"
proof -
  have out: "runCommand rt ''pip'' [''list'', ''--outdated'', ''--format=json''] None
              = (Inr \<lparr>code = 0, stdout = stream_text (proc_stdout p), stderr = stream_text (proc_stderr p)\<rparr>,
                 [[''pip'', ''list'', ''--outdated'', ''--format=json'']])"
    using runCommand_ok [OF assms(1), of None] assms(2) by simp
  from assms(4) obtain installed where "rs = map (pip_record []) installed"
    using assms(3) unfolding collectPip_def pip_packages_def out
    by (auto split: prod.splits sum.splits PipInstalled.splits)
  with assms(5) show ?thesis
    by (auto simp: pip_record_def)
qed

theorem pip_empty_outdated_all_current_witness:
  "spawn example_runtime [''pip'', ''list'', ''--outdated'', ''--format=json'']
     = Inr \<lparr>exited = 0, proc_stdout = Some [CHR 0x0A], proc_stderr = Some []\<rparr>
   \<and> fst (collectPip example_runtime) = Inr example_pip_records
   \<and> map latest_version example_pip_records = [None, None]
   \<and> map status example_pip_records = [Current, Current]"
proof -
  let ?p = "\<lparr>exited = 0, proc_stdout = Some [CHR 0x0A], proc_stderr = Some []\<rparr>"
  have 1: "spawn example_runtime [''pip'', ''list'', ''--outdated'', ''--format=json''] = Inr ?p"
    by (simp add: example_defs)
  have 2: "exited ?p = 0" by simp
  have 3: "trim (stream_text (proc_stdout ?p)) = []"
    by (simp add: stream_text_def trim_def is_space_def)
  have 4: "fst (collectPip example_runtime) = Inr example_pip_records"
    by (simp add: collectPip_example)
  have 5: "example_pip_records ! 0 \<in> set example_pip_records"
    and 6: "example_pip_records ! 1 \<in> set example_pip_records"
    by (simp_all add: example_pip_records_def)
  show ?thesis
    using pip_empty_outdated_all_current [OF 1 2 3 4 5]
      pip_empty_outdated_all_current [OF 1 2 3 4 6] 1 4
    by (simp add: example_pip_records_def)
qed

section \<open>The wire document: serializing and parsing back\<close>

lemma parse_serialize_status: "parse_status (serialize_status st) = Some st"
  by (cases st) (simp_all add: parse_status_def)

lemma serialize_parse_status: "parse_status w = Some st \<Longrightarrow> serialize_status st = w"
  by (auto simp: parse_status_def split: if_splits)

lemma parse_serialize_package:
  "parse_package (manager r) (serialize_package r) = Some r"
  by (simp add: parse_package_def serialize_package_def parse_serialize_status)

lemma those_map_Some: "those (map Some xs) = Some xs"
  by (induction xs) simp_all

lemma parse_serialize_block:
  "map (parse_package m) (map serialize_package (filter (\<lambda>r. manager r = m) ps))
     = map Some (filter (\<lambda>r. manager r = m) ps)"
  using parse_serialize_package by (induction ps) auto

lemma collectInventory_in_manager_order:
  "in_manager_order (packages (snapshot (fst (collectInventory rt))))"
  unfolding in_manager_order_def collectInventory_summary
  by (simp only: InventorySnapshot.simps CollectionSummary.simps filter_blocks [OF collector_tags [of rt]])

text \<open>
  Claim C8. Serializing an InventorySnapshot (its timestamp set and its packages in manager
  enumeration order, as the data model has every snapshot and as \<open>collectInventory\<close>
  builds every snapshot) to the wire document and parsing the document back yields a
  snapshot equal to the original. \<open>unknown\<close> is written as the literal \<open>-\<close>, and the two
  status mappings are inverse to each other.
\<close>

theorem wire_roundtrip:
  "(generated_at s = Some t \<and> in_manager_order (packages s) \<longrightarrow>
      Option.bind (serialize_snapshot s) parse_document = Some s)
   \<and> Option.bind (serialize_snapshot (snapshot (fst (collectInventory rt)))) parse_document
       = Some (snapshot (fst (collectInventory rt)))
   \<and> serialize_status Unknown = ''-''
   \<and> parse_status (serialize_status st) = Some st
   \<and> (parse_status w = Some st \<longrightarrow> serialize_status st = w)"
proof -
  have rt: "Option.bind (serialize_snapshot x) parse_document = Some x"
    if "generated_at x = Some u" "in_manager_order (packages x)" for x u
  proof -
    let ?B = "filter (\<lambda>r. manager r = Brew) (packages x)"
    let ?N = "filter (\<lambda>r. manager r = Npm) (packages x)"
    let ?P = "filter (\<lambda>r. manager r = Pip) (packages x)"
    have "those (map (parse_package Brew) (map serialize_package ?B)
                 @ map (parse_package Npm) (map serialize_package ?N)
                 @ map (parse_package Pip) (map serialize_package ?P))
          = those (map Some (?B @ ?N @ ?P))"
      by (simp only: parse_serialize_block map_append)
    also have "\<dots> = Some (?B @ ?N @ ?P)"
      by (rule those_map_Some)
    also have "?B @ ?N @ ?P = packages x"
      using that(2) unfolding in_manager_order_def by (rule sym)
    finally show ?thesis
      using that(1) by (simp add: parse_document_def serialize_snapshot_def)
  qed
  have stamp: "generated_at (snapshot (fst (collectInventory rt))) = Some (now rt)"
    by (simp add: collectInventory_summary)
  show ?thesis
    using rt [of s t] rt [OF stamp collectInventory_in_manager_order [of rt]]
      parse_serialize_status [of st] serialize_parse_status [of w st]
    by simp
qed

theorem wire_roundtrip_witness:
  "generated_at demoSnapshot = Some ''2025-10-05T12:34:56.000Z''
   \<and> in_manager_order (packages demoSnapshot)
   \<and> serialize_snapshot demoSnapshot = Some demoDocument
   \<and> parse_document demoDocument = Some demoSnapshot
   \<and> Option.bind (serialize_snapshot demoSnapshot) parse_document = Some demoSnapshot
   \<and> parse_status ''-'' = Some Unknown
   \<and> serialize_status Unknown = ''-''"
proof -
  have 1: "generated_at demoSnapshot = Some ''2025-10-05T12:34:56.000Z''"
    by (simp add: demoSnapshot_def)
  have 2: "in_manager_order (packages demoSnapshot)"
    by (simp add: in_manager_order_def demoSnapshot_def)
  have 3: "serialize_snapshot demoSnapshot = Some demoDocument"
    by (simp add: serialize_snapshot_def serialize_package_def demoSnapshot_def demoDocument_def)
  have 4: "parse_status ''-'' = Some Unknown"
    by (simp add: parse_status_def)
  show ?thesis
    using wire_roundtrip [of demoSnapshot "''2025-10-05T12:34:56.000Z''" example_runtime Unknown "''-''"]
      1 2 3 4
    by simp
qed

section \<open>The refresh scheduler: one aggregation in flight\<close>

lemma run_append: "run (es @ fs) s = run fs (run es s)"
  by (induction es arbitrary: s) simp_all

lemma run_joins:
  "phase s = Running \<Longrightarrow> run (map RefreshNow callers) s = s\<lparr>waiting := waiting s @ callers\<rparr>"
  by (induction callers arbitrary: s) (simp_all add: refreshNow_def)

text \<open>
  Claim C9. A \<open>refreshNow()\<close> called while a run is \<open>Running\<close> starts no aggregation: the
  count of aggregations and the phase stay as they are and the caller joins the run in
  flight. So when a first caller and any number of further callers call \<open>refreshNow()\<close> on an
  idle scheduler before the aggregation completes, exactly one aggregation is invoked, every
  caller observes the summary that aggregation produced, and that summary is stored as
  current.
\<close>

theorem refreshNow_joins_run_in_flight:
  "(phase s = Running \<longrightarrow>
      aggregations (refreshNow caller s) = aggregations s
      \<and> phase (refreshNow caller s) = Running
      \<and> waiting (refreshNow caller s) = waiting s @ [caller])
   \<and> (phase s = Idle \<longrightarrow>
        (let s' = run (RefreshNow first # map RefreshNow others @ [Completed summary]) s in
         aggregations s' = aggregations s + 1
         \<and> observed s' = observed s @ map (\<lambda>c. (c, summary)) (first # others)
         \<and> current s' = Some summary
         \<and> phase s' = Idle))"
proof -
  have idle: "run (RefreshNow first # map RefreshNow others @ [Completed summary]) s
        = s\<lparr>phase := Idle, current := Some summary, waiting := [], aggregations := aggregations s + 1,
             observed := observed s @ map (\<lambda>c. (c, summary)) (first # others)\<rparr>"
    if "phase s = Idle"
  proof -
    let ?s1 = "refreshNow first s"
    have s1: "?s1 = s\<lparr>phase := Running, waiting := [first], aggregations := aggregations s + 1\<rparr>"
      using that by (simp add: refreshNow_def)
    then have "phase ?s1 = Running" by simp
    from run_joins [OF this, of others]
    have "run (map RefreshNow others) ?s1 = ?s1\<lparr>waiting := waiting ?s1 @ others\<rparr>" .
    then show ?thesis
      by (simp add: run_append s1 completed_def)
  qed
  show ?thesis
    using idle by (simp add: refreshNow_def Let_def)
qed

theorem refreshNow_joins_run_in_flight_witness:
  "phase initial = Idle
   \<and> aggregations (run [RefreshNow 1, RefreshNow 2, Completed (fst (collectInventory example_runtime))] initial) = 1
   \<and> observed (run [RefreshNow 1, RefreshNow 2, Completed (fst (collectInventory example_runtime))] initial)
       = [(1, fst (collectInventory example_runtime)), (2, fst (collectInventory example_runtime))]
   \<and> phase (refreshNow 1 initial) = Running
   \<and> aggregations (refreshNow 2 (refreshNow 1 initial)) = aggregations (refreshNow 1 initial)"
  using refreshNow_joins_run_in_flight [of initial 0 1 "[2]" "fst (collectInventory example_runtime)"]
    refreshNow_joins_run_in_flight [of "refreshNow 1 initial" 2 1 "[]" "fst (collectInventory example_runtime)"]
  by (simp add: initial_def refreshNow_def completed_def Let_def)

section \<open>The two steps of a collector\<close>

text \<open>
  When \<open>brew list --versions\<close> succeeds and no line of its output names a formula with a
  version, \<open>collectBrew\<close> returns the empty list at once: the listing is the only command
  it spawns, the outdated step is not run.
\<close>

theorem collectBrew_empty_inventory:
  assumes "spawn rt [''brew'', ''list'', ''--versions''] = Inr p"
    and "exited p = 0"
    and "brew_installed (split_lines (stream_text (proc_stdout p))) [] = []"
  shows "collectBrew rt = (Inr [], [[''brew'', ''list'', ''--versions'']])"
  using runCommand_ok [OF assms(1), of None] assms(2,3)
  by (simp add: collectBrew_def)

theorem collectBrew_empty_inventory_witness:
  "spawn example_empty_brew [''brew'', ''list'', ''--versions'']
     = Inr \<lparr>exited = 0, proc_stdout = Some [], proc_stderr = Some []\<rparr>
   \<and> collectBrew example_empty_brew = (Inr [], [[''brew'', ''list'', ''--versions'']])
   \<and> warnings (fst (collectInventory example_empty_brew)) = []"
proof -
  let ?p = "\<lparr>exited = 0, proc_stdout = Some [], proc_stderr = Some []\<rparr>"
  have 1: "spawn example_empty_brew [''brew'', ''list'', ''--versions''] = Inr ?p"
    by (simp add: example_empty_brew_def finished_def)
  have 2: "exited ?p = 0" by simp
  have 3: "brew_installed (split_lines (stream_text (proc_stdout ?p))) [] = []"
    by (simp add: stream_text_def split_lines_def trim_def)
  have 4: "warnings (fst (collectInventory example_empty_brew)) = []"
    by code_simp
  show ?thesis
    using collectBrew_empty_inventory [OF 1 2 3] 1 4 by simp
qed

text \<open>
  When the inventory command of a collector fails, the collector fails and the inventory
  command is the only command it has spawned: the outdated step is never attempted.
\<close>

theorem inventory_failure_skips_outdated:
  "(isl (fst (runCommand rt ''brew'' [''list'', ''--versions''] None)) \<longrightarrow>
      snd (collectBrew rt) = [[''brew'', ''list'', ''--versions'']]
      \<and> isl (fst (collectBrew rt)))
   \<and> (isl (fst (runCommand rt ''npm'' [''ls'', ''-g'', ''--depth=0'', ''--json''] None)) \<longrightarrow>
      snd (collectNpm rt) = [[''npm'', ''ls'', ''-g'', ''--depth=0'', ''--json'']]
      \<and> isl (fst (collectNpm rt)))
   \<and> (isl (fst (runCommand rt ''pip'' [''list'', ''--format=json''] None)) \<longrightarrow>
      snd (collectPip rt) = [[''pip'', ''list'', ''--format=json'']]
      \<and> isl (fst (collectPip rt)))"
proof -
  have b: "snd (collectBrew rt) = [[''brew'', ''list'', ''--versions'']] \<and> isl (fst (collectBrew rt))"
    if "isl (fst (runCommand rt ''brew'' [''list'', ''--versions''] None))"
  proof -
    obtain res t where r: "runCommand rt ''brew'' [''list'', ''--versions''] None = (res, t)"
      by (cases "runCommand rt ''brew'' [''list'', ''--versions''] None")
    with runCommand_trace [of rt "''brew''" "[''list'', ''--versions'']" None]
    have t: "t = [[''brew'', ''list'', ''--versions'']]" by simp
    from that r obtain e where "res = Inl e" by (cases res) simp_all
    with r t show ?thesis by (simp add: collectBrew_def)
  qed
  have n: "snd (collectNpm rt) = [[''npm'', ''ls'', ''-g'', ''--depth=0'', ''--json'']]
           \<and> isl (fst (collectNpm rt))"
    if "isl (fst (runCommand rt ''npm'' [''ls'', ''-g'', ''--depth=0'', ''--json''] None))"
  proof -
    obtain res t where r: "runCommand rt ''npm'' [''ls'', ''-g'', ''--depth=0'', ''--json''] None = (res, t)"
      by (cases "runCommand rt ''npm'' [''ls'', ''-g'', ''--depth=0'', ''--json''] None")
    with runCommand_trace [of rt "''npm''" "[''ls'', ''-g'', ''--depth=0'', ''--json'']" None]
    have t: "t = [[''npm'', ''ls'', ''-g'', ''--depth=0'', ''--json'']]" by simp
    from that r obtain e where "res = Inl e" by (cases res) simp_all
    with r t show ?thesis by (simp add: collectNpm_def)
  qed
  have p: "snd (collectPip rt) = [[''pip'', ''list'', ''--format=json'']] \<and> isl (fst (collectPip rt))"
    if "isl (fst (runCommand rt ''pip'' [''list'', ''--format=json''] None))"
  proof -
    obtain res t where r: "runCommand rt ''pip'' [''list'', ''--format=json''] None = (res, t)"
      by (cases "runCommand rt ''pip'' [''list'', ''--format=json''] None")
    with runCommand_trace [of rt "''pip''" "[''list'', ''--format=json'']" None]
    have t: "t = [[''pip'', ''list'', ''--format=json'']]" by simp
    from that r obtain e where "res = Inl e" by (cases res) simp_all
    with r t show ?thesis by (simp add: collectPip_def)
  qed
  from b n p show ?thesis by blast
qed

theorem inventory_failure_skips_outdated_witness:
  "isl (fst (runCommand example_no_managers ''brew'' [''list'', ''--versions''] None))
   \<and> collectBrew example_no_managers
       = (Inl (Error ''Executable not found in $PATH''), [[''brew'', ''list'', ''--versions'']])
   \<and> snd (collectNpm example_no_managers) = [[''npm'', ''ls'', ''-g'', ''--depth=0'', ''--json'']]
   \<and> snd (collectPip example_no_managers) = [[''pip'', ''list'', ''--format=json'']]"
proof -
  have "isl (fst (runCommand example_no_managers ''brew'' [''list'', ''--versions''] None))"
    "isl (fst (runCommand example_no_managers ''npm'' [''ls'', ''-g'', ''--depth=0'', ''--json''] None))"
    "isl (fst (runCommand example_no_managers ''pip'' [''list'', ''--format=json''] None))"
    by (simp_all add: runCommand_def example_no_managers_def)
  then show ?thesis
    using inventory_failure_skips_outdated [of example_no_managers] collectors_no_managers(1)
    by (simp add: prod_eq_iff)
qed

text \<open>
  When \<open>pip list\<close> prints valid JSON that is no array, \<open>collectPip\<close> fails only at the
  closing \<open>installed.map(...)\<close>: both commands have been spawned by then, and the error is the
  \<open>TypeError\<close> itself, not a parse failure.
\<close>

lemma collectPip_not_an_array:
  assumes "spawn rt [''pip'', ''list'', ''--format=json''] = Inr p"
    and "exited p = 0"
    and "parse_PipPackages rt (stream_text (proc_stdout p)) = Inr (NotAnArray msg)"
    and "spawn rt [''pip'', ''list'', ''--outdated'', ''--format=json''] = Inr q"
    and "exited q = 0"
    and "trim (stream_text (proc_stdout q)) = []"
  shows "collectPip rt
           = (Inl (Error msg),
              [[''pip'', ''list'', ''--format=json''],
               [''pip'', ''list'', ''--outdated'', ''--format=json'']])"
  using runCommand_ok [OF assms(1), of None] runCommand_ok [OF assms(4), of None] assms(2,3,5,6)
  by (simp add: collectPip_def pip_packages_def)

end
